theory Spec2Isabelle
  imports Main
begin

section \<open>Data model of \<^verbatim>\<open>src/App.tsx\<close>\<close>

text \<open>
  The component keeps its state in React hooks. The model below keeps the hooks that the
  booking logic reads or writes (\<^verbatim>\<open>teamSlots\<close>, \<^verbatim>\<open>bench\<close>, \<^verbatim>\<open>selectedTeam\<close>, \<^verbatim>\<open>tempName\<close>,
  \<^verbatim>\<open>selectedKey\<close>, \<^verbatim>\<open>isBenchModalOpen\<close>, \<^verbatim>\<open>benchTempName\<close>, \<^verbatim>\<open>isAdminLoggedIn\<close>) in one record.
  The hook \<^verbatim>\<open>sessionId\<close>, which every handler reads from its closure and none writes, is
  passed to each handler as the argument \<open>sid\<close>; the empty string is its value before the
  mount effect has stored an identifier. Hooks that only drive rendering (view mode,
  database status banner, match settings form, login form) are left out.

  A handler is modelled as a function from the state before the event to the alert it
  shows (if any) and the state after it, its \<^verbatim>\<open>setX(prev => ...)\<close> calls applied in order.
  A handler that writes to the state after an \<^verbatim>\<open>await\<close> on the remote store is two
  functions: the part that runs on the click, up to the \<^verbatim>\<open>await\<close>, and the part that runs
  when the store has answered, the answer being an argument. Calls that only write to the
  remote store leave no trace in the model.

  A string is a list of 8-bit characters, read as the code units U+0000 to U+00FF.
\<close>

datatype BookingPositionKey = GK | LB | CB1 | CB2 | RB | CM1 | CM2 | CAM | ST

datatype LineType = LineGK | DEF | MID | ATT

datatype TeamId = Red | Green

datatype PaymentStatus = Unpaid | Paid

text \<open>
  \<^verbatim>\<open>BookingSlot\<close>. The optional fields \<^verbatim>\<open>tags\<close>, \<^verbatim>\<open>note\<close>, \<^verbatim>\<open>paymentStatus\<close> and \<^verbatim>\<open>sessionId\<close> are
  written by every place that builds a slot, so they are total here; an absent owner is the
  empty string, as in the source. \<^verbatim>\<open>playerName: undefined\<close> and \<^verbatim>\<open>rating: null\<close> are \<open>None\<close>.
  The field \<^verbatim>\<open>note\<close> is named \<open>note_txt\<close>.
\<close>

record BookingSlot =
  key :: BookingPositionKey
  label :: string
  line :: LineType
  booked :: bool
  playerName :: "string option"
  rating :: "int option"
  tags :: "string list"
  note_txt :: string
  paymentStatus :: PaymentStatus
  sessionId :: string

text \<open>\<^verbatim>\<open>TeamSlots = Record<TeamId, BookingSlot[]>\<close>: one array per team.\<close>

record TeamSlots =
  red :: "BookingSlot list"
  green :: "BookingSlot list"

text \<open>
  \<^verbatim>\<open>BenchPlayer\<close> (fields suffixed \<open>_b\<close>); \<^verbatim>\<open>sessionId?: string | null\<close> is an option whose
  \<open>None\<close> stands for both \<^verbatim>\<open>null\<close> and \<^verbatim>\<open>undefined\<close>.
\<close>

record BenchPlayer =
  id_b :: nat
  playerName_b :: string
  sessionId_b :: "string option"

text \<open>\<^verbatim>\<open>BenchRow\<close>, a row of the remote bench table.\<close>

record BenchRow =
  id_r :: nat
  player_name_r :: string
  session_id_r :: "string option"

text \<open>
  \<^verbatim>\<open>BookingRow\<close>, a row of the remote bookings table (fields suffixed \<open>_br\<close>). The column
  \<^verbatim>\<open>payment_status\<close> holds what \<^verbatim>\<open>updateBookingDetails\<close> wrote, one of the two payment states,
  or \<^verbatim>\<open>null\<close>.
\<close>

record BookingRow =
  id_br :: nat
  team_br :: TeamId
  position_key_br :: BookingPositionKey
  player_name_br :: string
  rating_br :: "int option"
  tags_br :: "string list option"
  note_br :: "string option"
  payment_status_br :: "PaymentStatus option"
  session_id_br :: "string option"

record AppState =
  teamSlots :: TeamSlots
  bench :: "BenchPlayer list"
  selectedTeam :: TeamId
  tempName :: string
  selectedKey :: "BookingPositionKey option"
  isBenchModalOpen :: bool
  benchTempName :: string
  isAdminLoggedIn :: bool

text \<open>
  The messages passed to \<^verbatim>\<open>alert\<close>, one constructor per message text of the source
  (the texts themselves are Arabic). The first seven are followed by \<^verbatim>\<open>return\<close>: they
  refuse the operation. The last three report the outcome of a reset.
\<close>

datatype Alert =
    AlertOnePositionOnly
  | AlertBenchHolderCannotBook
  | AlertNotYourBooking
  | AlertBookedCannotBench
  | AlertAlreadyOnBench
  | AlertNotYourBenchSeat
  | AlertAdminOnly
  | AlertResetLocalOnly
  | AlertResetDone
  | AlertResetRemoteFailed

fun isBlocking :: "Alert \<Rightarrow> bool" where
  "isBlocking AlertResetLocalOnly = False"
| "isBlocking AlertResetDone = False"
| "isBlocking AlertResetRemoteFailed = False"
| "isBlocking _ = True"

text \<open>What the remote store answered to the two bulk deletes of a reset.\<close>

datatype RemoteOutcome = RemoteDisabled | RemoteOk | RemoteFailed

text \<open>
  \<^verbatim>\<open>baseSlots\<close>: the nine positions in the order of the source. The display labels are
  Arabic in the source and are replaced by ASCII glosses; nothing computes on them.
\<close>

definition baseSlots :: "(BookingPositionKey \<times> string \<times> LineType) list" where
  "baseSlots =
    [(GK, ''goalkeeper'', LineGK),
     (LB, ''left back'', DEF),
     (CB1, ''centre back 1'', DEF),
     (CB2, ''centre back 2'', DEF),
     (RB, ''right back'', DEF),
     (CM1, ''midfield 1'', MID),
     (CM2, ''midfield 2'', MID),
     (CAM, ''playmaker (10)'', MID),
     (ST, ''striker'', ATT)]"

definition emptySlot :: "BookingPositionKey \<times> string \<times> LineType \<Rightarrow> BookingSlot" where
  "emptySlot b =
    \<lparr>key = fst b, label = fst (snd b), line = snd (snd b),
     booked = False, playerName = None, rating = None, tags = [],
     note_txt = [], paymentStatus = Unpaid, sessionId = []\<rparr>"

definition makeInitialTeamSlots :: TeamSlots where
  "makeInitialTeamSlots =
    \<lparr>red = map emptySlot baseSlots, green = map emptySlot baseSlots\<rparr>"

definition initialState :: AppState where
  "initialState =
    \<lparr>teamSlots = makeInitialTeamSlots, bench = [], selectedTeam = Red, tempName = [],
     selectedKey = None, isBenchModalOpen = False, benchTempName = [],
     isAdminLoggedIn = False\<rparr>"

text \<open>\<^verbatim>\<open>teamSlots[team]\<close> and \<^verbatim>\<open>updated[team] = xs\<close>.\<close>

fun slotsOf :: "TeamSlots \<Rightarrow> TeamId \<Rightarrow> BookingSlot list" where
  "slotsOf ts Red = red ts"
| "slotsOf ts Green = green ts"

fun setSlots :: "TeamId \<Rightarrow> BookingSlot list \<Rightarrow> TeamSlots \<Rightarrow> TeamSlots" where
  "setSlots Red xs ts = ts\<lparr>red := xs\<rparr>"
| "setSlots Green xs ts = ts\<lparr>green := xs\<rparr>"

text \<open>
  \<^verbatim>\<open>String.prototype.trim\<close> drops white space and line terminators at both ends. Of the
  code units that ECMAScript counts as such, seven are characters of the model: tab, line
  feed, vertical tab, form feed, carriage return, space and the no-break space U+00A0.
  The others (U+1680, U+2000 to U+200A, U+2028, U+2029, U+202F, U+205F, U+3000, U+FEFF)
  lie beyond U+00FF.
\<close>

definition isSpace :: "char \<Rightarrow> bool" where
  "isSpace c =
    (c \<in> set [CHR 0x09, CHR 0x0A, CHR 0x0B, CHR 0x0C, CHR 0x0D, CHR 0x20, CHR 0xA0])"

definition trim :: "string \<Rightarrow> string" where
  "trim s = rev (dropWhile isSpace (rev (dropWhile isSpace s)))"

text \<open>
  The two array idioms of the handlers: \<^verbatim>\<open>xs.map((s) => s.key === key ? f(s) : s)\<close> and
  \<^verbatim>\<open>teamSlots[team].find((s) => s.key === key)\<close>.
\<close>

definition updKey ::
  "BookingPositionKey \<Rightarrow> (BookingSlot \<Rightarrow> BookingSlot) \<Rightarrow> BookingSlot list \<Rightarrow> BookingSlot list" where
  "updKey k f xs = map (\<lambda>sl. if key sl = k then f sl else sl) xs"

definition slotAt :: "TeamSlots \<Rightarrow> TeamId \<Rightarrow> BookingPositionKey \<Rightarrow> BookingSlot option" where
  "slotAt ts team k = find (\<lambda>sl. key sl = k) (slotsOf ts team)"

section \<open>Derived lookups\<close>

text \<open>
  \<^verbatim>\<open>deviceBooking\<close>: the first booked slot owned by the device, teams in the order red,
  green and slots in array order; \<^verbatim>\<open>null\<close> when the device has no identifier.
\<close>

definition allSlots :: "TeamSlots \<Rightarrow> (TeamId \<times> BookingSlot) list" where
  "allSlots ts = concat (map (\<lambda>t. map (Pair t) (slotsOf ts t)) [Red, Green])"

definition deviceBooking :: "string \<Rightarrow> TeamSlots \<Rightarrow> (TeamId \<times> BookingSlot) option" where
  "deviceBooking sid ts =
    (if sid = [] then None
     else find (\<lambda>(t, sl). booked sl \<and> sessionId sl = sid) (allSlots ts))"

definition deviceBenchEntry :: "string \<Rightarrow> BenchPlayer list \<Rightarrow> BenchPlayer option" where
  "deviceBenchEntry sid bs =
    (if sid = [] then None else find (\<lambda>b. sessionId_b b = Some sid) bs)"


definition canCurrentDeviceCancelBench :: "string \<Rightarrow> BenchPlayer \<Rightarrow> bool" where
  "canCurrentDeviceCancelBench sid player =
    (if sid = [] then False
     else if sessionId_b player = None \<or> sessionId_b player = Some [] then True
     else sessionId_b player = Some sid)"

record TeamStats =
  total :: nat
  bookedCount :: nat
  remaining :: nat

definition build :: "TeamSlots \<Rightarrow> TeamId \<Rightarrow> TeamStats" where
  "build ts team =
    (let slots = slotsOf ts team;
         n = length slots;
         c = length (filter booked slots)
     in \<lparr>total = n, bookedCount = c, remaining = n - c\<rparr>)"

definition totalAll :: "TeamSlots \<Rightarrow> nat" where
  "totalAll ts = bookedCount (build ts Red) + bookedCount (build ts Green)"

section \<open>Handlers\<close>

definition handleSwitchTeam :: "TeamId \<Rightarrow> AppState \<Rightarrow> AppState" where
  "handleSwitchTeam team s = s\<lparr>selectedTeam := team, selectedKey := None, tempName := []\<rparr>"

definition handleOpenBooking ::
  "string \<Rightarrow> BookingPositionKey \<Rightarrow> AppState \<Rightarrow> Alert option \<times> AppState" where
  "handleOpenBooking sid k s =
    (let isOtherSlot =
           (case deviceBooking sid (teamSlots s) of
              None \<Rightarrow> False
            | Some (team, slot) \<Rightarrow> \<not> (team = selectedTeam s \<and> key slot = k))
     in if isOtherSlot then (Some AlertOnePositionOnly, s)
        else if deviceBenchEntry sid (bench s) \<noteq> None then (Some AlertBenchHolderCannotBook, s)
        else (None, s\<lparr>selectedKey := Some k, tempName := []\<rparr>))"

definition bookSlot :: "string \<Rightarrow> string \<Rightarrow> BookingSlot \<Rightarrow> BookingSlot" where
  "bookSlot name sid sl = sl\<lparr>booked := True, playerName := Some name, sessionId := sid\<rparr>"

text \<open>
  \<^verbatim>\<open>handleConfirmBooking\<close> up to \<^verbatim>\<open>await saveBookingToSupabase(...)\<close>: the two early returns,
  the alert on a bench entry, the booking. It does not look at \<^verbatim>\<open>deviceBooking\<close>.
\<close>

definition handleConfirmBooking :: "string \<Rightarrow> AppState \<Rightarrow> Alert option \<times> AppState" where
  "handleConfirmBooking sid s =
    (case selectedKey s of
       None \<Rightarrow> (None, s)
     | Some k \<Rightarrow>
         if trim (tempName s) = [] then (None, s)
         else if deviceBenchEntry sid (bench s) \<noteq> None then (Some AlertBenchHolderCannotBook, s)
         else
           (None,
            s\<lparr>teamSlots :=
                 setSlots (selectedTeam s)
                   (updKey k (bookSlot (trim (tempName s)) sid)
                      (slotsOf (teamSlots s) (selectedTeam s)))
                   (teamSlots s)\<rparr>))"

text \<open>
  \<^verbatim>\<open>handleConfirmBooking\<close> after the \<^verbatim>\<open>await\<close>: \<^verbatim>\<open>setSelectedKey(null); setTempName("")\<close>,
  which closes the dialog. The dialog's own cancel button does the same.
\<close>

definition handleConfirmBookingResumed :: "AppState \<Rightarrow> AppState" where
  "handleConfirmBookingResumed s = s\<lparr>selectedKey := None, tempName := []\<rparr>"

text \<open>The two object literals that \<^verbatim>\<open>handleCancelBooking\<close> spreads over a slot.\<close>

definition clearSlot :: "BookingSlot \<Rightarrow> BookingSlot" where
  "clearSlot sl =
    sl\<lparr>booked := False, playerName := None, rating := None, tags := [],
       note_txt := [], paymentStatus := Unpaid, sessionId := []\<rparr>"

definition promoteInto :: "BenchPlayer \<Rightarrow> BookingSlot \<Rightarrow> BookingSlot" where
  "promoteInto b sl =
    sl\<lparr>booked := True, playerName := Some (playerName_b b),
       sessionId := (case sessionId_b b of None \<Rightarrow> [] | Some x \<Rightarrow> x)\<rparr>"

text \<open>The guard \<^verbatim>\<open>!opts?.force && slot.sessionId && sessionId && slot.sessionId !== sessionId\<close>.\<close>

definition cancelRefused :: "bool \<Rightarrow> string \<Rightarrow> string \<Rightarrow> bool" where
  "cancelRefused force sid owner = (\<not> force \<and> owner \<noteq> [] \<and> sid \<noteq> [] \<and> owner \<noteq> sid)"

definition handleCancelBooking ::
  "string \<Rightarrow> TeamId \<Rightarrow> BookingPositionKey \<Rightarrow> bool \<Rightarrow> AppState \<Rightarrow> Alert option \<times> AppState" where
  "handleCancelBooking sid team k force s =
    (case slotAt (teamSlots s) team k of
       None \<Rightarrow> (None, s)
     | Some slot \<Rightarrow>
         if cancelRefused force sid (sessionId slot) then (Some AlertNotYourBooking, s)
         else
           (case bench s of
              [] \<Rightarrow>
                (None,
                 s\<lparr>teamSlots :=
                      setSlots team
                        (updKey k clearSlot (slotsOf (teamSlots s) team))
                        (teamSlots s)\<rparr>)
            | benchFirst # _ \<Rightarrow>
                (None,
                 s\<lparr>teamSlots :=
                      setSlots team
                        (updKey k (promoteInto benchFirst)
                           (updKey k clearSlot (slotsOf (teamSlots s) team)))
                        (teamSlots s),
                   bench := filter (\<lambda>b. id_b b \<noteq> id_b benchFirst) (bench s)\<rparr>)))"

definition handleOpenBenchBooking :: "string \<Rightarrow> AppState \<Rightarrow> Alert option \<times> AppState" where
  "handleOpenBenchBooking sid s =
    (if deviceBooking sid (teamSlots s) \<noteq> None then (Some AlertBookedCannotBench, s)
     else if deviceBenchEntry sid (bench s) \<noteq> None then (Some AlertAlreadyOnBench, s)
     else (None, s\<lparr>benchTempName := [], isBenchModalOpen := True\<rparr>))"

text \<open>
  \<^verbatim>\<open>handleConfirmBenchBooking\<close> up to the \<^verbatim>\<open>await\<close> on the remote insert: the early return on
  a blank name and the append. \<open>tempId\<close> is the value of \<^verbatim>\<open>Date.now()\<close>. The handler tests
  neither \<^verbatim>\<open>deviceBooking\<close> nor \<^verbatim>\<open>deviceBenchEntry\<close>, and it leaves the dialog open and the
  name in place.
\<close>

definition fromRow :: "BenchRow \<Rightarrow> BenchPlayer" where
  "fromRow row =
    \<lparr>id_b = id_r row, playerName_b = player_name_r row, sessionId_b = session_id_r row\<rparr>"

definition handleConfirmBenchBooking :: "string \<Rightarrow> nat \<Rightarrow> AppState \<Rightarrow> AppState" where
  "handleConfirmBenchBooking sid tempId s =
    (if trim (benchTempName s) = [] then s
     else
       (let newBenchPlayer =
              \<lparr>id_b = tempId, playerName_b = trim (benchTempName s), sessionId_b = Some sid\<rparr>
        in s\<lparr>bench := bench s @ [newBenchPlayer]\<rparr>))"

text \<open>
  \<^verbatim>\<open>handleConfirmBenchBooking\<close> from the answer of the insert on: \<open>ins\<close> is the row returned,
  \<open>None\<close> when the store is not configured (then there is no wait) or the insert failed.
  The row replaces every entry that carries the temporary id; the name is cleared and the
  dialog closed.
\<close>

definition handleConfirmBenchBookingResumed ::
  "nat \<Rightarrow> BenchRow option \<Rightarrow> AppState \<Rightarrow> AppState" where
  "handleConfirmBenchBookingResumed tempId ins s =
    s\<lparr>bench :=
        (case ins of
           None \<Rightarrow> bench s
         | Some row \<Rightarrow> map (\<lambda>b. if id_b b = tempId then fromRow row else b) (bench s)),
      benchTempName := [],
      isBenchModalOpen := False\<rparr>"

text \<open>The guard of \<^verbatim>\<open>handleCancelBenchPlayer\<close>, on an owner that may be \<^verbatim>\<open>null\<close>.\<close>

definition benchCancelRefused :: "bool \<Rightarrow> string \<Rightarrow> string option \<Rightarrow> bool" where
  "benchCancelRefused force sid owner =
    (case owner of
       None \<Rightarrow> False
     | Some x \<Rightarrow> \<not> force \<and> x \<noteq> [] \<and> sid \<noteq> [] \<and> x \<noteq> sid)"

definition handleCancelBenchPlayer ::
  "string \<Rightarrow> nat \<Rightarrow> bool \<Rightarrow> AppState \<Rightarrow> Alert option \<times> AppState" where
  "handleCancelBenchPlayer sid benchId force s =
    (case find (\<lambda>b. id_b b = benchId) (bench s) of
       None \<Rightarrow> (None, s)
     | Some player \<Rightarrow>
         if benchCancelRefused force sid (sessionId_b player)
         then (Some AlertNotYourBenchSeat, s)
         else (None, s\<lparr>bench := filter (\<lambda>b. id_b b \<noteq> benchId) (bench s)\<rparr>))"

text \<open>
  \<^verbatim>\<open>handleResetLineup\<close>. \<open>sure\<close> is the answer of \<^verbatim>\<open>window.confirm\<close>, \<open>remote\<close> the fate of
  the bulk deletes, which decides the closing message only.
\<close>

definition handleResetLineup ::
  "bool \<Rightarrow> RemoteOutcome \<Rightarrow> AppState \<Rightarrow> Alert option \<times> AppState" where
  "handleResetLineup sure remote s =
    (if \<not> isAdminLoggedIn s then (Some AlertAdminOnly, s)
     else if \<not> sure then (None, s)
     else
       (Some (case remote of
                RemoteDisabled \<Rightarrow> AlertResetLocalOnly
              | RemoteOk \<Rightarrow> AlertResetDone
              | RemoteFailed \<Rightarrow> AlertResetRemoteFailed),
        s\<lparr>teamSlots := makeInitialTeamSlots, bench := []\<rparr>))"

text \<open>
  The argument of \<^verbatim>\<open>updateBookingDetails\<close>: a \<^verbatim>\<open>Partial\<close> of four fields. \<open>None\<close> is a field
  that the object literal does not name; \<open>Some v\<close> is a field named with value \<open>v\<close>
  (for the rating \<open>v\<close> is itself \<^verbatim>\<open>null\<close> or a number).
\<close>

record Updates =
  u_rating :: "int option option"
  u_tags :: "string list option"
  u_paymentStatus :: "PaymentStatus option"
  u_note :: "string option"

text \<open>The spread \<^verbatim>\<open>{ ...slot, ...updates }\<close>.\<close>

definition applyUpdates :: "Updates \<Rightarrow> BookingSlot \<Rightarrow> BookingSlot" where
  "applyUpdates u sl =
    sl\<lparr>rating := (case u_rating u of None \<Rightarrow> rating sl | Some r \<Rightarrow> r),
       tags := (case u_tags u of None \<Rightarrow> tags sl | Some t \<Rightarrow> t),
       paymentStatus := (case u_paymentStatus u of None \<Rightarrow> paymentStatus sl | Some p \<Rightarrow> p),
       note_txt := (case u_note u of None \<Rightarrow> note_txt sl | Some n \<Rightarrow> n)\<rparr>"

definition updateBookingDetails ::
  "TeamId \<Rightarrow> BookingPositionKey \<Rightarrow> Updates \<Rightarrow> AppState \<Rightarrow> AppState" where
  "updateBookingDetails team k u s =
    s\<lparr>teamSlots :=
        setSlots team
          (updKey k (applyUpdates u) (slotsOf (teamSlots s) team))
          (teamSlots s)\<rparr>"

text \<open>
  \<^verbatim>\<open>handleAdminLogin\<close> and \<^verbatim>\<open>handleAdminLogout\<close>, as far as they touch the privilege flag:
  with no remote store the login returns early, a failed sign-in clears the flag, a session
  sets it.
\<close>

definition handleAdminLogin :: "RemoteOutcome \<Rightarrow> AppState \<Rightarrow> AppState" where
  "handleAdminLogin auth s =
    (case auth of
       RemoteDisabled \<Rightarrow> s
     | RemoteOk \<Rightarrow> s\<lparr>isAdminLoggedIn := True\<rparr>
     | RemoteFailed \<Rightarrow> s\<lparr>isAdminLoggedIn := False\<rparr>)"

definition handleAdminLogout :: "AppState \<Rightarrow> AppState" where
  "handleAdminLogout s = s\<lparr>isAdminLoggedIn := False\<rparr>"

text \<open>
  \<^verbatim>\<open>loadFromSupabase\<close>, as far as it writes the lineup: the bookings read from the store are
  laid over a fresh \<^verbatim>\<open>makeInitialTeamSlots()\<close>, row by row, and later, after two more
  \<^verbatim>\<open>await\<close>s, the bench rows replace the bench. It is started by a mount effect and
  finishes whenever the store answers.
\<close>

definition loadedSlot :: "BookingRow \<Rightarrow> BookingSlot \<Rightarrow> BookingSlot" where
  "loadedSlot row slot =
    slot\<lparr>booked := True,
         playerName := Some (player_name_br row),
         rating := rating_br row,
         tags := (case tags_br row of None \<Rightarrow> [] | Some x \<Rightarrow> x),
         note_txt := (case note_br row of None \<Rightarrow> [] | Some x \<Rightarrow> x),
         paymentStatus := (case payment_status_br row of None \<Rightarrow> Unpaid | Some x \<Rightarrow> x),
         sessionId := (case session_id_br row of None \<Rightarrow> [] | Some x \<Rightarrow> x)\<rparr>"

definition loadRow :: "BookingRow \<Rightarrow> TeamSlots \<Rightarrow> TeamSlots" where
  "loadRow row next =
    setSlots (team_br row)
      (updKey (position_key_br row) (loadedSlot row) (slotsOf next (team_br row)))
      next"

definition loadBookings :: "BookingRow list \<Rightarrow> AppState \<Rightarrow> AppState" where
  "loadBookings rows s = s\<lparr>teamSlots := fold loadRow rows makeInitialTeamSlots\<rparr>"

definition loadBench :: "BenchRow list \<Rightarrow> AppState \<Rightarrow> AppState" where
  "loadBench rows s = s\<lparr>bench := map fromRow rows\<rparr>"

section \<open>Events\<close>

text \<open>
  An operation is refused when it shows one of the blocking messages and leaves the team
  slots and the bench queue as they were.
\<close>

definition refused :: "Alert option \<times> AppState \<Rightarrow> AppState \<Rightarrow> bool" where
  "refused r s =
    ((case fst r of None \<Rightarrow> False | Some a \<Rightarrow> isBlocking a)
     \<and> teamSlots (snd r) = teamSlots s \<and> bench (snd r) = bench s)"

text \<open>
  What a device holds, in the words of the specification: the booked positions, in either
  team, whose recorded owner is the device, and the bench entries whose recorded owner is
  the device. The empty string is the absence of an identifier, so it holds nothing.
\<close>

definition bookingsOf :: "string \<Rightarrow> TeamSlots \<Rightarrow> (TeamId \<times> BookingSlot) list" where
  "bookingsOf sid ts =
    (if sid = [] then [] else filter (\<lambda>(t, sl). booked sl \<and> sessionId sl = sid) (allSlots ts))"

definition benchEntriesOf :: "string \<Rightarrow> BenchPlayer list \<Rightarrow> BenchPlayer list" where
  "benchEntriesOf sid bs =
    (if sid = [] then [] else filter (\<lambda>b. sessionId_b b = Some sid) bs)"

definition holdsBooking :: "string \<Rightarrow> TeamSlots \<Rightarrow> bool" where
  "holdsBooking sid ts = (bookingsOf sid ts \<noteq> [])"

definition holdsOtherBooking ::
  "string \<Rightarrow> TeamId \<Rightarrow> BookingPositionKey \<Rightarrow> TeamSlots \<Rightarrow> bool" where
  "holdsOtherBooking sid team k ts =
    list_ex (\<lambda>(t, sl). \<not> (t = team \<and> key sl = k)) (bookingsOf sid ts)"

definition holdsBenchEntry :: "string \<Rightarrow> BenchPlayer list \<Rightarrow> bool" where
  "holdsBenchEntry sid bs = (benchEntriesOf sid bs \<noteq> [])"

text \<open>The positions, as team and key, that a list of slots names.\<close>

definition positionsOf :: "(TeamId \<times> BookingSlot) list \<Rightarrow> (TeamId \<times> BookingPositionKey) list" where
  "positionsOf xs = map (\<lambda>(t, sl). (t, key sl)) xs"


text \<open>
  The events that write the lineup, one per handler call or resumption, each with the
  session identifier of the device it happens on where the handler reads it:
  \<^item> \<open>SwitchTeam\<close>, \<open>OpenBooking\<close>, \<open>ConfirmBooking\<close>, \<open>Cancel\<close>, \<open>OpenBench\<close>, \<open>ConfirmBench\<close>,
    \<open>LeaveBench\<close>, \<open>Reset\<close>, \<open>UpdateDetails\<close>, \<open>AdminLogin\<close>, \<open>AdminLogout\<close>: a click that calls
    the handler of that name (\<open>Cancel\<close> is \<^verbatim>\<open>handleCancelBooking\<close>, \<open>LeaveBench\<close> is
    \<^verbatim>\<open>handleCancelBenchPlayer\<close>, \<open>Reset\<close> is \<^verbatim>\<open>handleResetLineup\<close>);
  \<^item> \<open>BookingSaved\<close>, \<open>BenchInserted\<close>: the store has answered and the confirm handler goes
    on after its \<^verbatim>\<open>await\<close>; a bench insert answers with the id and the name of the stored
    row, which carries the session identifier that was sent, or with nothing;
  \<^item> \<open>TypeName\<close>, \<open>TypeBenchName\<close>, \<open>CloseBooking\<close>, \<open>CloseBench\<close>: the input and the cancel
    button of a dialog;
  \<^item> \<open>LoadedBookings\<close>, \<open>LoadedBench\<close>: the two writes of \<^verbatim>\<open>loadFromSupabase\<close>.

  The booking dialog is rendered under \<^verbatim>\<open>{selectedKey && ...}\<close> and the bench dialog under
  \<^verbatim>\<open>{isBenchModalOpen && ...}\<close>, so typing a name and confirming a bench seat happen only
  while the dialog is open (\<^verbatim>\<open>handleConfirmBooking\<close> tests \<^verbatim>\<open>selectedKey\<close> itself). Every
  other handler is taken as callable in any state.
\<close>

datatype Op =
    SwitchTeam TeamId
  | OpenBooking string BookingPositionKey
  | TypeName string
  | ConfirmBooking string
  | BookingSaved
  | CloseBooking
  | Cancel string TeamId BookingPositionKey bool
  | OpenBench string
  | TypeBenchName string
  | ConfirmBench string nat
  | BenchInserted string nat "(nat \<times> string) option"
  | CloseBench
  | LeaveBench string nat bool
  | Reset bool RemoteOutcome
  | UpdateDetails TeamId BookingPositionKey Updates
  | AdminLogin RemoteOutcome
  | AdminLogout
  | LoadedBookings "BookingRow list"
  | LoadedBench "BenchRow list"

fun stepOp :: "Op \<Rightarrow> AppState \<Rightarrow> Alert option \<times> AppState" where
  "stepOp (SwitchTeam team) s = (None, handleSwitchTeam team s)"
| "stepOp (OpenBooking sid k) s = handleOpenBooking sid k s"
| "stepOp (TypeName name) s = (None, if selectedKey s = None then s else s\<lparr>tempName := name\<rparr>)"
| "stepOp (ConfirmBooking sid) s = handleConfirmBooking sid s"
| "stepOp BookingSaved s = (None, handleConfirmBookingResumed s)"
| "stepOp CloseBooking s = (None, s\<lparr>selectedKey := None, tempName := []\<rparr>)"
| "stepOp (Cancel sid team k force) s = handleCancelBooking sid team k force s"
| "stepOp (OpenBench sid) s = handleOpenBenchBooking sid s"
| "stepOp (TypeBenchName name) s =
     (None, if isBenchModalOpen s then s\<lparr>benchTempName := name\<rparr> else s)"
| "stepOp (ConfirmBench sid tempId) s =
     (None, if isBenchModalOpen s then handleConfirmBenchBooking sid tempId s else s)"
| "stepOp (BenchInserted sid tempId stored) s =
     (None,
      handleConfirmBenchBookingResumed tempId
        (map_option (\<lambda>(i, n). \<lparr>id_r = i, player_name_r = n, session_id_r = Some sid\<rparr>) stored)
        s)"
| "stepOp CloseBench s = (None, s\<lparr>isBenchModalOpen := False, benchTempName := []\<rparr>)"
| "stepOp (LeaveBench sid benchId force) s = handleCancelBenchPlayer sid benchId force s"
| "stepOp (Reset sure remote) s = handleResetLineup sure remote s"
| "stepOp (UpdateDetails team k u) s = (None, updateBookingDetails team k u s)"
| "stepOp (AdminLogin auth) s = (None, handleAdminLogin auth s)"
| "stepOp AdminLogout s = (None, handleAdminLogout s)"
| "stepOp (LoadedBookings rows) s = (None, loadBookings rows s)"
| "stepOp (LoadedBench rows) s = (None, loadBench rows s)"

definition applyOp :: "Op \<Rightarrow> AppState \<Rightarrow> AppState" where
  "applyOp op s = snd (stepOp op s)"

text \<open>The state after a run of events, and the alerts shown on the way.\<close>

fun runOps :: "Op list \<Rightarrow> AppState \<Rightarrow> AppState" where
  "runOps [] s = s"
| "runOps (op # ops) s = runOps ops (applyOp op s)"

fun alertsOf :: "Op list \<Rightarrow> AppState \<Rightarrow> Alert list" where
  "alertsOf [] s = []"
| "alertsOf (op # ops) s =
     (case fst (stepOp op s) of None \<Rightarrow> [] | Some a \<Rightarrow> [a]) @
         alertsOf ops (applyOp op s)"

text \<open>
  The events of a claim and of a bench join that nothing disturbs: select the team, open
  the dialog, type the name, confirm, and the store answers.
\<close>

definition claimEvents :: "string \<Rightarrow> TeamId \<Rightarrow> BookingPositionKey \<Rightarrow> string \<Rightarrow> Op list" where
  "claimEvents sid team k name =
    [SwitchTeam team, OpenBooking sid k, TypeName name, ConfirmBooking sid, BookingSaved]"

definition benchJoinEvents :: "string \<Rightarrow> string \<Rightarrow> nat \<Rightarrow> (nat \<times> string) option \<Rightarrow> Op list" where
  "benchJoinEvents sid name tempId stored =
    [OpenBench sid, TypeBenchName name, ConfirmBench sid tempId, BenchInserted sid tempId stored]"

section \<open>Invariants of the lineup\<close>

text \<open>
  Every team array holds the nine keys of \<^verbatim>\<open>baseSlots\<close> in order: the handlers only ever
  \<^verbatim>\<open>map\<close> over the arrays built by \<^verbatim>\<open>makeInitialTeamSlots\<close>.
\<close>

definition wfKeys :: "TeamSlots \<Rightarrow> bool" where
  "wfKeys ts =
    (map key (red ts) = map fst baseSlots \<and> map key (green ts) = map fst baseSlots)"

text \<open>A position that is not booked records no owner.\<close>

definition unownedWhenEmpty :: "TeamSlots \<Rightarrow> bool" where
  "unownedWhenEmpty ts = (\<forall>(t, sl) \<in> set (allSlots ts). \<not> booked sl \<longrightarrow> sessionId sl = [])"

definition lineupInv :: "AppState \<Rightarrow> bool" where
  "lineupInv s = (wfKeys (teamSlots s) \<and> unownedWhenEmpty (teamSlots s))"

section \<open>Facts about the array idioms and the invariant\<close>

subsection \<open>Arrays and keys\<close>

lemma slotsOf_setSlots:
  "slotsOf (setSlots t xs ts) t' = (if t' = t then xs else slotsOf ts t')"
  by (cases t; cases t') simp_all

lemma set_allSlots: "set (allSlots ts) = {(t, sl). sl \<in> set (slotsOf ts t)}"
proof -
  have "\<And>t sl. sl \<in> set (slotsOf ts t) \<longleftrightarrow> (t = Red \<and> sl \<in> set (red ts)) \<or> (t = Green \<and> sl \<in> set (green ts))"
    subgoal for t sl by (cases t) simp_all done
  then show ?thesis by (auto simp: allSlots_def)
qed

lemma set_updKey:
  "sl' \<in> set (updKey k f xs) \<longleftrightarrow>
     (sl' \<in> set xs \<and> key sl' \<noteq> k) \<or> (\<exists>sl \<in> set xs. key sl = k \<and> sl' = f sl)"
  by (auto simp: updKey_def)

lemma map_key_updKey:
  assumes "\<And>sl. key (f sl) = key sl"
  shows "map key (updKey k f xs) = map key xs"
  by (induction xs) (simp_all add: updKey_def assms)

lemma find_updKey:
  assumes "\<And>sl. key (f sl) = key sl"
  shows "find (\<lambda>sl. key sl = k) (updKey k f xs) = map_option f (find (\<lambda>sl. key sl = k) xs)"
  by (induction xs) (simp_all add: updKey_def assms)

lemma wfKeys_setSlots:
  "wfKeys ts \<Longrightarrow> map key xs = map key (slotsOf ts t) \<Longrightarrow> wfKeys (setSlots t xs ts)"
  by (cases t) (simp_all add: wfKeys_def)

lemma unownedWhenEmpty_alt:
  "unownedWhenEmpty ts \<longleftrightarrow>
     (\<forall>t sl. sl \<in> set (slotsOf ts t) \<longrightarrow> \<not> booked sl \<longrightarrow> sessionId sl = [])"
  by (simp add: unownedWhenEmpty_def set_allSlots Ball_def)

lemma mem_slots_upd:
  "sl' \<in> set (slotsOf (setSlots team (updKey k f (slotsOf ts team)) ts) t) \<longleftrightarrow>
     (t \<noteq> team \<and> sl' \<in> set (slotsOf ts t)) \<or>
     (t = team \<and> sl' \<in> set (slotsOf ts team) \<and> key sl' \<noteq> k) \<or>
     (t = team \<and> (\<exists>sl \<in> set (slotsOf ts team). key sl = k \<and> sl' = f sl))"
  by (auto simp: slotsOf_setSlots set_updKey)

lemma updKey_updKey:
  assumes "\<And>sl. key (f sl) = key sl"
  shows "updKey k g (updKey k f xs) = updKey k (g \<circ> f) xs"
  by (induction xs) (simp_all add: updKey_def assms)

lemma wfKeys_upd:
  assumes "wfKeys ts" and "\<And>sl. key (f sl) = key sl"
  shows "wfKeys (setSlots team (updKey k f (slotsOf ts team)) ts)"
  using assms by (intro wfKeys_setSlots) (simp_all add: map_key_updKey)

lemma key_clearSlot: "key (clearSlot sl) = key sl"
  by (simp add: clearSlot_def)

lemma key_promoteInto: "key (promoteInto b sl) = key sl"
  by (simp add: promoteInto_def)

lemma key_bookSlot: "key (bookSlot n x sl) = key sl"
  by (simp add: bookSlot_def)

lemma key_applyUpdates: "key (applyUpdates u sl) = key sl"
  by (simp add: applyUpdates_def)

lemma unowned_upd:
  assumes "unownedWhenEmpty ts" and "\<And>sl. \<not> booked (f sl) \<Longrightarrow> booked sl \<or> sessionId sl = [] \<Longrightarrow> sessionId (f sl) = []"
  shows "unownedWhenEmpty (setSlots team (updKey k f (slotsOf ts team)) ts)"
  using assms unfolding unownedWhenEmpty_alt mem_slots_upd by blast

lemma key_loadedSlot: "key (loadedSlot row sl) = key sl"
  by (simp add: loadedSlot_def)

subsection \<open>Every event keeps the invariant\<close>

lemma inv_upd:
  assumes "lineupInv s"
    and "\<And>sl. key (f sl) = key sl"
    and "\<And>sl. \<not> booked (f sl) \<Longrightarrow> booked sl \<or> sessionId sl = [] \<Longrightarrow> sessionId (f sl) = []"
    and "teamSlots s' = setSlots team (updKey k f (slotsOf (teamSlots s) team)) (teamSlots s)"
  shows "lineupInv s'"
proof -
  from assms(1) have wf: "wfKeys (teamSlots s)" and emp: "unownedWhenEmpty (teamSlots s)"
    by (simp_all add: lineupInv_def)
  have "wfKeys (setSlots team (updKey k f (slotsOf (teamSlots s) team)) (teamSlots s))"
    using wf assms(2) by (rule wfKeys_upd)
  moreover have "unownedWhenEmpty (setSlots team (updKey k f (slotsOf (teamSlots s) team)) (teamSlots s))"
    using emp assms(3) by (rule unowned_upd)
  ultimately show ?thesis
    by (simp add: lineupInv_def assms(4))
qed

lemma confirm_preserves:
  assumes "lineupInv s"
  shows "lineupInv (snd (handleConfirmBooking sid s))"
proof (cases "fst (handleConfirmBooking sid s) = None \<and> selectedKey s \<noteq> None
              \<and> trim (tempName s) \<noteq> [] \<and> deviceBenchEntry sid (bench s) = None")
  case True
  then obtain k where k: "selectedKey s = Some k"
    by blast
  show ?thesis
  proof (rule inv_upd[OF assms, where f = "bookSlot (trim (tempName s)) sid"
        and team = "selectedTeam s" and k = k])
    show "key (bookSlot (trim (tempName s)) sid sl) = key sl" for sl
      by (rule key_bookSlot)
    show "sessionId (bookSlot (trim (tempName s)) sid sl) = []"
      if "\<not> booked (bookSlot (trim (tempName s)) sid sl)" for sl
      using that by (simp add: bookSlot_def)
    show "teamSlots (snd (handleConfirmBooking sid s))
            = setSlots (selectedTeam s)
                (updKey k (bookSlot (trim (tempName s)) sid) (slotsOf (teamSlots s) (selectedTeam s)))
                (teamSlots s)"
      using True k by (simp add: handleConfirmBooking_def)
  qed
next
  case False
  then have "snd (handleConfirmBooking sid s) = s"
    by (auto simp: handleConfirmBooking_def split: option.splits)
  then show ?thesis
    using assms by simp
qed

lemma cancel_preserves:
  assumes "lineupInv s"
  shows "lineupInv (snd (handleCancelBooking sid team k force s))"
proof (cases "slotAt (teamSlots s) team k")
  case None
  then show ?thesis
    using assms by (simp add: handleCancelBooking_def)
next
  case (Some slot)
  show ?thesis
  proof (cases "cancelRefused force sid (sessionId slot)")
    case True
    then show ?thesis
      using assms Some by (simp add: handleCancelBooking_def)
  next
    case False
    show ?thesis
    proof (cases "bench s")
      case Nil
      show ?thesis
      proof (rule inv_upd[OF assms, where f = clearSlot and team = team and k = k])
        show "key (clearSlot sl) = key sl" for sl
          by (rule key_clearSlot)
        show "sessionId (clearSlot sl) = []" for sl
          by (simp add: clearSlot_def)
        show "teamSlots (snd (handleCancelBooking sid team k force s))
                = setSlots team (updKey k clearSlot (slotsOf (teamSlots s) team)) (teamSlots s)"
          using Some False Nil by (simp add: handleCancelBooking_def)
      qed
    next
      case (Cons h rest)
      show ?thesis
      proof (rule inv_upd[OF assms, where f = "promoteInto h \<circ> clearSlot" and team = team and k = k])
        show "key ((promoteInto h \<circ> clearSlot) sl) = key sl" for sl
          by (simp add: key_promoteInto key_clearSlot)
        show "sessionId ((promoteInto h \<circ> clearSlot) sl) = []"
          if "\<not> booked ((promoteInto h \<circ> clearSlot) sl)" for sl
          using that by (simp add: promoteInto_def)
        show "teamSlots (snd (handleCancelBooking sid team k force s))
                = setSlots team (updKey k (promoteInto h \<circ> clearSlot) (slotsOf (teamSlots s) team))
                    (teamSlots s)"
          using Some False Cons
          by (simp add: handleCancelBooking_def updKey_updKey key_clearSlot)
      qed
    qed
  qed
qed

lemma initial_slots:
  "sl \<in> set (slotsOf makeInitialTeamSlots t) \<Longrightarrow> \<not> booked sl \<and> sessionId sl = []"
  by (cases t) (auto simp: makeInitialTeamSlots_def emptySlot_def)

lemma inv_initial:
  assumes "teamSlots s = makeInitialTeamSlots"
  shows "lineupInv s"
proof -
  have "wfKeys makeInitialTeamSlots"
    by (simp add: wfKeys_def makeInitialTeamSlots_def emptySlot_def)
  moreover have "unownedWhenEmpty makeInitialTeamSlots"
    using initial_slots by (auto simp: unownedWhenEmpty_alt)
  ultimately show ?thesis
    using assms by (simp add: lineupInv_def)
qed

lemma reset_preserves:
  assumes "lineupInv s"
  shows "lineupInv (snd (handleResetLineup sure remote s))"
  using assms by (auto simp: handleResetLineup_def intro: inv_initial)

lemma update_preserves:
  assumes "lineupInv s"
  shows "lineupInv (updateBookingDetails team k u s)"
proof (rule inv_upd[OF assms, where f = "applyUpdates u" and team = team and k = k])
  show "key (applyUpdates u sl) = key sl" for sl
    by (rule key_applyUpdates)
  show "sessionId (applyUpdates u sl) = []"
    if "\<not> booked (applyUpdates u sl)" "booked sl \<or> sessionId sl = []" for sl
    using that by (simp add: applyUpdates_def)
  show "teamSlots (updateBookingDetails team k u s)
          = setSlots team (updKey k (applyUpdates u) (slotsOf (teamSlots s) team)) (teamSlots s)"
    by (simp add: updateBookingDetails_def)
qed

lemma loadRow_preserves:
  assumes "wfKeys ts \<and> unownedWhenEmpty ts"
  shows "wfKeys (loadRow row ts) \<and> unownedWhenEmpty (loadRow row ts)"
proof
  show "wfKeys (loadRow row ts)"
    unfolding loadRow_def using assms by (intro wfKeys_upd) (simp_all add: key_loadedSlot)
  show "unownedWhenEmpty (loadRow row ts)"
    unfolding loadRow_def using assms by (intro unowned_upd) (simp_all add: loadedSlot_def)
qed

lemma fold_loadRow_preserves:
  "wfKeys ts \<and> unownedWhenEmpty ts \<Longrightarrow>
     wfKeys (fold loadRow rows ts) \<and> unownedWhenEmpty (fold loadRow rows ts)"
  by (induction rows arbitrary: ts) (simp_all add: loadRow_preserves)

lemma load_preserves: "lineupInv (loadBookings rows s)"
proof -
  have "lineupInv (s\<lparr>teamSlots := makeInitialTeamSlots\<rparr>)"
    by (rule inv_initial) simp
  then have "wfKeys makeInitialTeamSlots \<and> unownedWhenEmpty makeInitialTeamSlots"
    by (simp add: lineupInv_def)
  then show ?thesis
    unfolding lineupInv_def loadBookings_def using fold_loadRow_preserves by simp
qed

lemma bench_events_keep_slots:
  "teamSlots (handleConfirmBenchBooking sid tempId s) = teamSlots s"
  "teamSlots (handleConfirmBenchBookingResumed tempId ins s) = teamSlots s"
  "teamSlots (loadBench rows s) = teamSlots s"
  by (simp_all add: handleConfirmBenchBooking_def Let_def handleConfirmBenchBookingResumed_def
      loadBench_def)

lemma dialog_events_keep_slots:
  "teamSlots (handleSwitchTeam team s) = teamSlots s"
  "teamSlots (handleConfirmBookingResumed s) = teamSlots s"
  "teamSlots (handleAdminLogout s) = teamSlots s"
  by (simp_all add: handleSwitchTeam_def handleConfirmBookingResumed_def handleAdminLogout_def)

lemma applyOp_preserves:
  assumes "lineupInv s"
  shows "lineupInv (applyOp op s)"
proof (cases op)
  case (ConfirmBooking sid)
  then show ?thesis
    using assms by (simp add: applyOp_def confirm_preserves)
next
  case (Cancel sid team k force)
  then show ?thesis
    using assms by (simp add: applyOp_def cancel_preserves)
next
  case (Reset sure remote)
  then show ?thesis
    using assms by (simp add: applyOp_def reset_preserves)
next
  case (UpdateDetails team k u)
  then show ?thesis
    using assms by (simp add: applyOp_def update_preserves)
next
  case (LoadedBookings rows)
  then show ?thesis
    by (simp add: applyOp_def load_preserves)
next
  case (OpenBooking sid k)
  have "teamSlots (snd (handleOpenBooking sid k s)) = teamSlots s"
    by (simp add: handleOpenBooking_def Let_def)
  then show ?thesis
    using assms OpenBooking by (simp add: applyOp_def lineupInv_def)
next
  case (OpenBench sid)
  have "teamSlots (snd (handleOpenBenchBooking sid s)) = teamSlots s"
    by (simp add: handleOpenBenchBooking_def)
  then show ?thesis
    using assms OpenBench by (simp add: applyOp_def lineupInv_def)
next
  case (LeaveBench sid benchId force)
  have "teamSlots (snd (handleCancelBenchPlayer sid benchId force s)) = teamSlots s"
    by (simp add: handleCancelBenchPlayer_def split: option.splits)
  then show ?thesis
    using assms LeaveBench by (simp add: applyOp_def lineupInv_def)
next
  case (AdminLogin auth)
  have "teamSlots (handleAdminLogin auth s) = teamSlots s"
    by (cases auth) (simp_all add: handleAdminLogin_def)
  then show ?thesis
    using assms AdminLogin by (simp add: applyOp_def lineupInv_def)
next
  case (SwitchTeam team)
  then show ?thesis
    using assms by (simp add: applyOp_def lineupInv_def dialog_events_keep_slots)
next
  case (TypeName name)
  then show ?thesis
    using assms by (simp add: applyOp_def lineupInv_def)
next
  case BookingSaved
  then show ?thesis
    using assms by (simp add: applyOp_def lineupInv_def dialog_events_keep_slots)
next
  case CloseBooking
  then show ?thesis
    using assms by (simp add: applyOp_def lineupInv_def)
next
  case (TypeBenchName name)
  then show ?thesis
    using assms by (simp add: applyOp_def lineupInv_def)
next
  case (ConfirmBench sid tempId)
  then show ?thesis
    using assms by (simp add: applyOp_def lineupInv_def bench_events_keep_slots)
next
  case (BenchInserted sid tempId stored)
  then show ?thesis
    using assms by (simp add: applyOp_def lineupInv_def bench_events_keep_slots)
next
  case CloseBench
  then show ?thesis
    using assms by (simp add: applyOp_def lineupInv_def)
next
  case AdminLogout
  then show ?thesis
    using assms by (simp add: applyOp_def lineupInv_def dialog_events_keep_slots)
next
  case (LoadedBench rows)
  then show ?thesis
    using assms by (simp add: applyOp_def lineupInv_def bench_events_keep_slots)
qed

lemma runOps_preserves: "lineupInv s \<Longrightarrow> lineupInv (runOps ops s)"
  by (induction ops arbitrary: s) (simp_all add: applyOp_preserves)

lemma lineupInv_reachable: "lineupInv (runOps ops initialState)"
  by (rule runOps_preserves) (rule inv_initial, simp add: initialState_def)

subsection \<open>Outcome of a cancellation\<close>

lemma slotAt_upd:
  assumes "\<And>sl. key (f sl) = key sl"
  shows "slotAt (setSlots team (updKey k f (slotsOf ts team)) ts) team k = map_option f (slotAt ts team k)"
  by (simp add: slotAt_def slotsOf_setSlots find_updKey[OF assms])

lemma slotAt_key: "slotAt ts team k = Some slot \<Longrightarrow> key slot = k"
  by (auto simp: slotAt_def find_Some_iff)

lemma cancel_result:
  assumes "slotAt (teamSlots s) team k = Some slot"
    and "\<not> cancelRefused force sid (sessionId slot)"
  shows "fst (handleCancelBooking sid team k force s) = None"
    and "slotAt (teamSlots (snd (handleCancelBooking sid team k force s))) team k =
           Some (case bench s of [] \<Rightarrow> clearSlot slot | h # _ \<Rightarrow> promoteInto h (clearSlot slot))"
    and "bench (snd (handleCancelBooking sid team k force s)) =
           (case bench s of [] \<Rightarrow> [] | h # rest \<Rightarrow> filter (\<lambda>b. id_b b \<noteq> id_b h) rest)"
  using assms
  by (auto simp: handleCancelBooking_def slotAt_upd key_clearSlot key_promoteInto updKey_updKey
      split: list.splits)

lemma slotAt_mem: "slotAt ts team k = Some slot \<Longrightarrow> slot \<in> set (slotsOf ts team)"
  by (auto simp: slotAt_def find_Some_iff dest: nth_mem)

lemma empty_slot_unowned:
  assumes "lineupInv s" and "slotAt (teamSlots s) team k = Some slot" and "\<not> booked slot"
  shows "sessionId slot = []"
  using assms(1) slotAt_mem[OF assms(2)] assms(3)
  unfolding lineupInv_def unownedWhenEmpty_alt by blast

subsection \<open>The guard of a cancellation\<close>



subsection \<open>What the open handlers and the booking confirm refuse\<close>

lemma find_as_filter: "find P xs = (case filter P xs of [] \<Rightarrow> None | x # _ \<Rightarrow> Some x)"
  by (induction xs) simp_all

lemma deviceBooking_bookingsOf:
  "deviceBooking sid ts = (case bookingsOf sid ts of [] \<Rightarrow> None | x # _ \<Rightarrow> Some x)"
  by (simp add: deviceBooking_def bookingsOf_def find_as_filter)

lemma deviceBenchEntry_benchEntriesOf:
  "deviceBenchEntry sid bs = (case benchEntriesOf sid bs of [] \<Rightarrow> None | x # _ \<Rightarrow> Some x)"
  by (simp add: deviceBenchEntry_def benchEntriesOf_def find_as_filter)

lemma holdsBooking_iff:
  "holdsBooking sid ts \<longleftrightarrow> deviceBooking sid ts \<noteq> None"
  by (simp add: holdsBooking_def deviceBooking_bookingsOf split: list.splits)

lemma holdsBenchEntry_iff:
  "holdsBenchEntry sid bs \<longleftrightarrow> deviceBenchEntry sid bs \<noteq> None"
  by (simp add: holdsBenchEntry_def deviceBenchEntry_benchEntriesOf split: list.splits)

lemma open_booking_refused_on_bench:
  assumes "holdsBenchEntry sid (bench s)"
  shows "refused (handleOpenBooking sid k s) s"
  using assms unfolding holdsBenchEntry_iff
  by (auto simp: refused_def handleOpenBooking_def Let_def)

lemma confirm_booking_refused_on_bench:
  assumes "holdsBenchEntry sid (bench s)" and "selectedKey s = Some k" and "trim (tempName s) \<noteq> []"
  shows "handleConfirmBooking sid s = (Some AlertBenchHolderCannotBook, s)"
  using assms unfolding holdsBenchEntry_iff
  by (auto simp: handleConfirmBooking_def)

lemma open_bench_refused_on_pitch:
  assumes "holdsBooking sid (teamSlots s)"
  shows "handleOpenBenchBooking sid s = (Some AlertBookedCannotBench, s)"
  using assms unfolding holdsBooking_iff
  by (auto simp: handleOpenBenchBooking_def)

section \<open>Claims\<close>

text \<open>
  C1. A claim is to be refused, with a blocking message and no change, when the acting
  device holds another booking or a bench entry. The source tests the other booking only
  when the dialog is opened (\<^verbatim>\<open>handleOpenBooking\<close>); the booking is written by
  \<^verbatim>\<open>handleConfirmBooking\<close>, which tests the bench entry and nothing else. So a device that
  comes to hold a booking while its dialog is open books a second position, and no
  message is shown. Here device X, which booked red GK on an earlier visit, opens the
  dialog for red LB before the start-up load has answered; the load then brings its GK
  booking; X types a name and confirms. At the confirm X holds another booking, the
  handler shows nothing, and X ends with red GK and red LB.
\<close>

theorem confirm_books_while_device_holds_another:
  "alertsOf [OpenBooking ''X'' LB,
             LoadedBookings 
               [\<lparr>id_br = 7, team_br = Red, position_key_br = GK, player_name_br = ''Sami'',
                rating_br = None, tags_br = None, note_br = None, payment_status_br = None,
                session_id_br = Some ''X''\<rparr>],
             TypeName ''Sami'',
             ConfirmBooking ''X''] initialState = []
   \<and> holdsOtherBooking ''X'' Red LB
        (teamSlots (runOps [OpenBooking ''X'' LB,
                            LoadedBookings 
               [\<lparr>id_br = 7, team_br = Red, position_key_br = GK, player_name_br = ''Sami'',
                rating_br = None, tags_br = None, note_br = None, payment_status_br = None,
                session_id_br = Some ''X''\<rparr>],
                            TypeName ''Sami''] initialState))
   \<and> fst (handleConfirmBooking ''X''
             (runOps [OpenBooking ''X'' LB,
                      LoadedBookings 
               [\<lparr>id_br = 7, team_br = Red, position_key_br = GK, player_name_br = ''Sami'',
                rating_br = None, tags_br = None, note_br = None, payment_status_br = None,
                session_id_br = Some ''X''\<rparr>],
                      TypeName ''Sami''] initialState)) = None
   \<and> positionsOf (bookingsOf ''X''
        (teamSlots (runOps [OpenBooking ''X'' LB,
                            LoadedBookings 
               [\<lparr>id_br = 7, team_br = Red, position_key_br = GK, player_name_br = ''Sami'',
                rating_br = None, tags_br = None, note_br = None, payment_status_br = None,
                session_id_br = Some ''X''\<rparr>],
                            TypeName ''Sami'',
                            ConfirmBooking ''X''] initialState))) = [(Red, GK), (Red, LB)]"
  by code_simp

text \<open>
  C2. In a state where a position is booked and the bench queue is non-empty, a
  cancellation that is let through promotes the head of the queue: the position ends
  booked with the head's name and device identifier, the head is off the queue, and the
  queue is left with the entries behind the head in their order. The source takes the head
  off by filtering the queue on its id, so an entry behind the head that carries the same
  id goes with it; when no entry does (an id identifies its entry), the queue is left
  with exactly the entries behind the head.
\<close>

theorem cancel_promotes_bench_head:
  assumes "slotAt (teamSlots s) team k = Some slot"
    and "booked slot"
    and "\<not> cancelRefused force sid (sessionId slot)"
    and "bench s = h # rest"
  shows "fst (handleCancelBooking sid team k force s) = None
       \<and> map_option booked (slotAt (teamSlots (snd (handleCancelBooking sid team k force s))) team k)
           = Some True
       \<and> map_option playerName (slotAt (teamSlots (snd (handleCancelBooking sid team k force s))) team k)
           = Some (Some (playerName_b h))
       \<and> map_option sessionId (slotAt (teamSlots (snd (handleCancelBooking sid team k force s))) team k)
           = Some (case sessionId_b h of None \<Rightarrow> [] | Some x \<Rightarrow> x)
       \<and> bench (snd (handleCancelBooking sid team k force s))
           = filter (\<lambda>b. id_b b \<noteq> id_b h) rest
       \<and> h \<notin> set (bench (snd (handleCancelBooking sid team k force s)))
       \<and> (id_b h \<notin> id_b ` set rest \<longrightarrow> bench (snd (handleCancelBooking sid team k force s)) = rest)"
proof -
  have "filter (\<lambda>b. id_b b \<noteq> id_b h) rest = rest" if "id_b h \<notin> id_b ` set rest"
    using that by (induction rest) auto
  then show ?thesis
    using cancel_result[OF assms(1,3)] assms(4) by (auto simp: promoteInto_def)
qed

theorem cancel_promotes_bench_head_witness:
  "fst (handleCancelBooking ''X'' Red CB1 False
          (runOps (claimEvents ''X'' Red CB1 ''Sami'' @
              benchJoinEvents ''Y'' ''Alice'' 41 None) initialState)) = None
   \<and> map_option booked (slotAt (teamSlots (snd (handleCancelBooking ''X'' Red CB1 False
          (runOps (claimEvents ''X'' Red CB1 ''Sami'' @
              benchJoinEvents ''Y'' ''Alice'' 41 None) initialState)))) Red CB1) = Some True
   \<and> map_option playerName (slotAt (teamSlots (snd (handleCancelBooking ''X'' Red CB1 False
          (runOps (claimEvents ''X'' Red CB1 ''Sami'' @
              benchJoinEvents ''Y'' ''Alice'' 41 None) initialState)))) Red CB1) = Some (Some ''Alice'')
   \<and> map_option sessionId (slotAt (teamSlots (snd (handleCancelBooking ''X'' Red CB1 False
          (runOps (claimEvents ''X'' Red CB1 ''Sami'' @
              benchJoinEvents ''Y'' ''Alice'' 41 None) initialState)))) Red CB1) = Some ''Y''
   \<and> bench (snd (handleCancelBooking ''X'' Red CB1 False
          (runOps (claimEvents ''X'' Red CB1 ''Sami'' @
              benchJoinEvents ''Y'' ''Alice'' 41 None) initialState))) = []
   \<and> bench (snd (handleCancelBooking ''X'' Red CB1 False
          (runOps (claimEvents ''X'' Red CB1 ''Sami'' @
              benchJoinEvents ''Y'' ''Alice'' 41 None @
              benchJoinEvents ''Z'' ''Bob'' 42 None @
              benchJoinEvents ''W'' ''Carl'' 43 None) initialState)))
       = [\<lparr>id_b = 42, playerName_b = ''Bob'', sessionId_b = Some ''Z''\<rparr>,
          \<lparr>id_b = 43, playerName_b = ''Carl'', sessionId_b = Some ''W''\<rparr>]"
proof -
  let ?s = "runOps (claimEvents ''X'' Red CB1 ''Sami'' @
      benchJoinEvents ''Y'' ''Alice'' 41 None) initialState"
  let ?s' = "runOps (claimEvents ''X'' Red CB1 ''Sami'' @
      benchJoinEvents ''Y'' ''Alice'' 41 None @
      benchJoinEvents ''Z'' ''Bob'' 42 None @
      benchJoinEvents ''W'' ''Carl'' 43 None) initialState"
  let ?slot = "\<lparr>key = CB1, label = ''centre back 1'', line = DEF,
            booked = True, playerName = Some ''Sami'', rating = None, tags = [],
            note_txt = [], paymentStatus = Unpaid, sessionId = ''X''\<rparr>"
  let ?h = "\<lparr>id_b = 41, playerName_b = ''Alice'', sessionId_b = Some ''Y''\<rparr>"
  let ?rest = "[\<lparr>id_b = 42, playerName_b = ''Bob'', sessionId_b = Some ''Z''\<rparr>,
          \<lparr>id_b = 43, playerName_b = ''Carl'', sessionId_b = Some ''W''\<rparr>]"
  have h1: "slotAt (teamSlots ?s) Red CB1 = Some ?slot"
    by code_simp
  have h2: "booked ?slot"
    by simp
  have h3: "\<not> cancelRefused False ''X'' (sessionId ?slot)"
    by (simp add: cancelRefused_def)
  have h4: "bench ?s = ?h # []"
    by code_simp
  have h5: "id_b ?h \<notin> id_b ` set []"
    by simp
  have g1: "slotAt (teamSlots ?s') Red CB1 = Some ?slot"
    by code_simp
  have g4: "bench ?s' = ?h # ?rest"
    by code_simp
  have g5: "id_b ?h \<notin> id_b ` set ?rest"
    by simp
  from cancel_promotes_bench_head[OF h1 h2 h3 h4] h5
  have a: "fst (handleCancelBooking ''X'' Red CB1 False ?s) = None"
    "map_option booked (slotAt (teamSlots (snd (handleCancelBooking ''X'' Red CB1 False ?s))) Red CB1)
       = Some True"
    "map_option playerName (slotAt (teamSlots (snd (handleCancelBooking ''X'' Red CB1 False ?s))) Red CB1)
       = Some (Some ''Alice'')"
    "map_option sessionId (slotAt (teamSlots (snd (handleCancelBooking ''X'' Red CB1 False ?s))) Red CB1)
       = Some ''Y''"
    "bench (snd (handleCancelBooking ''X'' Red CB1 False ?s)) = []"
    by simp_all
  from cancel_promotes_bench_head[OF g1 h2 h3 g4] g5
  have b: "bench (snd (handleCancelBooking ''X'' Red CB1 False ?s')) = ?rest"
    by blast
  from a b show ?thesis
    by blast
qed

text \<open>
  C3. Each device identifier is to own at most one booked position. The source does not
  keep this. \<^verbatim>\<open>handleConfirmBenchBooking\<close> tests nothing but the name and leaves its dialog
  open until the remote insert has answered, so a second click on its confirm button
  appends a second bench entry for the same device; each later cancellation of a booked
  position then promotes that device once more. Here Y books red GK and Z books red LB;
  X opens the bench dialog, types a name and clicks confirm twice before the store
  answers; the two inserts answer; Y cancels red GK and Z cancels red LB. No message is
  shown at any step and X ends as the owner of red GK and of red LB. The second run stays
  on the one device X: the start-up load brings the bookings of Y and Z, X joins the bench
  with the same two clicks, and the administrator, logged in on that device, cancels red
  GK and red LB from the administrative view.
\<close>

theorem second_bench_confirm_gives_two_bookings:
  "alertsOf
     (claimEvents ''Y'' Red GK ''Omar'' @ claimEvents ''Z'' Red LB ''Ali'' @
      [OpenBench ''X'', TypeBenchName ''Sami'',
       ConfirmBench ''X'' 41, ConfirmBench ''X'' 42,
       BenchInserted ''X'' 41 (Some (7, ''Sami'')), BenchInserted ''X'' 42 (Some (8, ''Sami'')),
       Cancel ''Y'' Red GK False, Cancel ''Z'' Red LB False]) initialState = []
   \<and> positionsOf (bookingsOf ''X'' (teamSlots (runOps
     (claimEvents ''Y'' Red GK ''Omar'' @ claimEvents ''Z'' Red LB ''Ali'' @
      [OpenBench ''X'', TypeBenchName ''Sami'',
       ConfirmBench ''X'' 41, ConfirmBench ''X'' 42,
       BenchInserted ''X'' 41 (Some (7, ''Sami'')), BenchInserted ''X'' 42 (Some (8, ''Sami'')),
       Cancel ''Y'' Red GK False, Cancel ''Z'' Red LB False]) initialState)))
       = [(Red, GK), (Red, LB)]
   \<and> length (bookingsOf ''X'' (teamSlots (runOps
     (claimEvents ''Y'' Red GK ''Omar'' @ claimEvents ''Z'' Red LB ''Ali'' @
      [OpenBench ''X'', TypeBenchName ''Sami'',
       ConfirmBench ''X'' 41, ConfirmBench ''X'' 42,
       BenchInserted ''X'' 41 (Some (7, ''Sami'')), BenchInserted ''X'' 42 (Some (8, ''Sami'')),
       Cancel ''Y'' Red GK False, Cancel ''Z'' Red LB False]) initialState))) = 2
   \<and> alertsOf
      [LoadedBookings
         [\<lparr>id_br = 1, team_br = Red, position_key_br = GK, player_name_br = ''Omar'',
          rating_br = None, tags_br = None, note_br = None, payment_status_br = None,
          session_id_br = Some ''Y''\<rparr>,
          \<lparr>id_br = 2, team_br = Red, position_key_br = LB, player_name_br = ''Ali'',
          rating_br = None, tags_br = None, note_br = None, payment_status_br = None,
          session_id_br = Some ''Z''\<rparr>],
       OpenBench ''X'', TypeBenchName ''Sami'',
       ConfirmBench ''X'' 41, ConfirmBench ''X'' 42,
       BenchInserted ''X'' 41 (Some (7, ''Sami'')), BenchInserted ''X'' 42 (Some (8, ''Sami'')),
       AdminLogin RemoteOk,
       Cancel ''X'' Red GK True, Cancel ''X'' Red LB True] initialState = []
   \<and> positionsOf (bookingsOf ''X'' (teamSlots (runOps
      [LoadedBookings
         [\<lparr>id_br = 1, team_br = Red, position_key_br = GK, player_name_br = ''Omar'',
          rating_br = None, tags_br = None, note_br = None, payment_status_br = None,
          session_id_br = Some ''Y''\<rparr>,
          \<lparr>id_br = 2, team_br = Red, position_key_br = LB, player_name_br = ''Ali'',
          rating_br = None, tags_br = None, note_br = None, payment_status_br = None,
          session_id_br = Some ''Z''\<rparr>],
       OpenBench ''X'', TypeBenchName ''Sami'',
       ConfirmBench ''X'' 41, ConfirmBench ''X'' 42,
       BenchInserted ''X'' 41 (Some (7, ''Sami'')), BenchInserted ''X'' 42 (Some (8, ''Sami'')),
       AdminLogin RemoteOk,
       Cancel ''X'' Red GK True, Cancel ''X'' Red LB True] initialState)))
       = [(Red, GK), (Red, LB)]"
  by code_simp



text \<open>
  C5. In a state where a position is booked and the bench queue is empty, a cancellation
  that is let through leaves the position with every mutable field at its default: not
  booked, no occupant name, no rating, no tags, empty note, unpaid, no owner. Key, label
  and line stay; the bench stays empty.
\<close>

theorem cancel_with_empty_bench_resets_position:
  assumes "slotAt (teamSlots s) team k = Some slot"
    and "booked slot"
    and "\<not> cancelRefused force sid (sessionId slot)"
    and "bench s = []"
  shows "slotAt (teamSlots (snd (handleCancelBooking sid team k force s))) team k =
           Some \<lparr>key = k, label = label slot, line = line slot,
                  booked = False, playerName = None, rating = None, tags = [],
                  note_txt = [], paymentStatus = Unpaid, sessionId = []\<rparr>
         \<and> bench (snd (handleCancelBooking sid team k force s)) = []"
  using cancel_result(2,3)[OF assms(1,3)] assms(4) slotAt_key[OF assms(1)]
  by (simp add: clearSlot_def)

theorem cancel_with_empty_bench_resets_position_witness:
  "slotAt (teamSlots (snd (handleCancelBooking ''X'' Red CB1 False
       (runOps (claimEvents ''X'' Red CB1 ''Sami'' @
           [UpdateDetails Red CB1
               \<lparr>u_rating = Some (Some 9), u_tags = Some [''fast''],
                 u_paymentStatus = Some Paid, u_note = Some ''left foot''\<rparr>]) initialState)))) Red CB1 =
     Some \<lparr>key = CB1, label = ''centre back 1'', line = DEF,
            booked = False, playerName = None, rating = None, tags = [],
            note_txt = [], paymentStatus = Unpaid, sessionId = []\<rparr>"
proof -
  let ?s = "runOps (claimEvents ''X'' Red CB1 ''Sami'' @
      [UpdateDetails Red CB1
          \<lparr>u_rating = Some (Some 9), u_tags = Some [''fast''],
            u_paymentStatus = Some Paid, u_note = Some ''left foot''\<rparr>]) initialState"
  let ?slot = "\<lparr>key = CB1, label = ''centre back 1'', line = DEF,
            booked = True, playerName = Some ''Sami'', rating = Some 9, tags = [''fast''],
            note_txt = ''left foot'', paymentStatus = Paid, sessionId = ''X''\<rparr>"
  have h1: "slotAt (teamSlots ?s) Red CB1 = Some ?slot" by code_simp
  have h2: "booked ?slot" by simp
  have h3: "\<not> cancelRefused False ''X'' (sessionId ?slot)" by (simp add: cancelRefused_def)
  have h4: "bench ?s = []" by code_simp
  from cancel_with_empty_bench_resets_position[OF h1 h2 h3 h4] show ?thesis by simp
qed

text \<open>
  C6. No device identifier is to own a bench entry and a booked position at once, and a
  device that holds a booked position is not to join the bench. The source does not keep
  this, by the same gap as under C3: \<^verbatim>\<open>handleConfirmBenchBooking\<close> tests neither
  \<^verbatim>\<open>deviceBooking\<close> nor \<^verbatim>\<open>deviceBenchEntry\<close> and stays clickable while its insert is awaited.
  First run: Y books red GK; X opens the bench dialog, types a name and clicks confirm
  twice before the store answers; the inserts answer; Y cancels red GK. X is promoted
  into red GK and still has an entry on the bench. Second run: X, which booked red GK on
  an earlier visit, opens the bench dialog before the start-up load has answered; the load
  brings its booking; X types a name and confirms, and joins the bench while it holds red
  GK. No message is shown in either run.
\<close>

theorem second_bench_confirm_gives_booking_and_bench_entry:
  "alertsOf
     (claimEvents ''Y'' Red GK ''Omar'' @
      [OpenBench ''X'', TypeBenchName ''Sami'',
       ConfirmBench ''X'' 41, ConfirmBench ''X'' 42,
       BenchInserted ''X'' 41 (Some (7, ''Sami'')), BenchInserted ''X'' 42 (Some (8, ''Sami'')),
       Cancel ''Y'' Red GK False]) initialState = []
   \<and> holdsBooking ''X'' (teamSlots (runOps
     (claimEvents ''Y'' Red GK ''Omar'' @
      [OpenBench ''X'', TypeBenchName ''Sami'',
       ConfirmBench ''X'' 41, ConfirmBench ''X'' 42,
       BenchInserted ''X'' 41 (Some (7, ''Sami'')), BenchInserted ''X'' 42 (Some (8, ''Sami'')),
       Cancel ''Y'' Red GK False]) initialState))
   \<and> holdsBenchEntry ''X'' (bench (runOps
     (claimEvents ''Y'' Red GK ''Omar'' @
      [OpenBench ''X'', TypeBenchName ''Sami'',
       ConfirmBench ''X'' 41, ConfirmBench ''X'' 42,
       BenchInserted ''X'' 41 (Some (7, ''Sami'')), BenchInserted ''X'' 42 (Some (8, ''Sami'')),
       Cancel ''Y'' Red GK False]) initialState))
   \<and> alertsOf [OpenBench ''X'',
               LoadedBookings 
               [\<lparr>id_br = 7, team_br = Red, position_key_br = GK, player_name_br = ''Sami'',
                rating_br = None, tags_br = None, note_br = None, payment_status_br = None,
                session_id_br = Some ''X''\<rparr>],
               TypeBenchName ''Sami'',
               ConfirmBench ''X'' 41] initialState = []
   \<and> holdsBooking ''X''
        (teamSlots (runOps [OpenBench ''X'',
                            LoadedBookings 
               [\<lparr>id_br = 7, team_br = Red, position_key_br = GK, player_name_br = ''Sami'',
                rating_br = None, tags_br = None, note_br = None, payment_status_br = None,
                session_id_br = Some ''X''\<rparr>],
                            TypeBenchName ''Sami''] initialState))
   \<and> holdsBenchEntry ''X''
        (bench (runOps [OpenBench ''X'',
                        LoadedBookings 
               [\<lparr>id_br = 7, team_br = Red, position_key_br = GK, player_name_br = ''Sami'',
                rating_br = None, tags_br = None, note_br = None, payment_status_br = None,
                session_id_br = Some ''X''\<rparr>],
                        TypeBenchName ''Sami'',
                        ConfirmBench ''X'' 41] initialState))"
  by code_simp

text \<open>
  C7. Whatever the state before, a reset by a logged-in administrator who confirms the
  dialog leaves both teams as \<^verbatim>\<open>makeInitialTeamSlots\<close> builds them (nine positions each,
  none booked) and the bench empty, whatever the remote store answers.
\<close>

theorem reset_all_clears_lineup:
  assumes "isAdminLoggedIn s"
  shows "teamSlots (snd (handleResetLineup True remote s)) = makeInitialTeamSlots
       \<and> bench (snd (handleResetLineup True remote s)) = []
       \<and> bookedCount (build (teamSlots (snd (handleResetLineup True remote s))) Red) = 0
       \<and> bookedCount (build (teamSlots (snd (handleResetLineup True remote s))) Green) = 0
       \<and> total (build (teamSlots (snd (handleResetLineup True remote s))) Red) = 9
       \<and> total (build (teamSlots (snd (handleResetLineup True remote s))) Green) = 9
       \<and> totalAll (teamSlots (snd (handleResetLineup True remote s))) = 0"
proof -
  have ts: "teamSlots (snd (handleResetLineup True remote s)) = makeInitialTeamSlots"
    and bs: "bench (snd (handleResetLineup True remote s)) = []"
    using assms by (simp_all add: handleResetLineup_def)
  have "bookedCount (build makeInitialTeamSlots t) = 0 \<and> total (build makeInitialTeamSlots t) = 9" for t
    by (cases t) (simp_all add: build_def makeInitialTeamSlots_def baseSlots_def emptySlot_def)
  then show ?thesis unfolding ts bs totalAll_def by simp
qed

theorem reset_all_clears_lineup_witness:
  "totalAll (teamSlots
      (runOps (claimEvents ''A'' Red GK ''Sami'' @
          claimEvents ''B'' Red LB ''Omar'' @
          claimEvents ''C'' Red ST ''Ali'' @
          claimEvents ''D'' Green GK ''Zaid'' @
          claimEvents ''E'' Green CAM ''Nour'' @
          benchJoinEvents ''F'' ''Hadi'' 41 None @
          benchJoinEvents ''G'' ''Rami'' 42 None @
          [AdminLogin RemoteOk]) initialState)) = 5
   \<and> length (bench
      (runOps (claimEvents ''A'' Red GK ''Sami'' @
          claimEvents ''B'' Red LB ''Omar'' @
          claimEvents ''C'' Red ST ''Ali'' @
          claimEvents ''D'' Green GK ''Zaid'' @
          claimEvents ''E'' Green CAM ''Nour'' @
          benchJoinEvents ''F'' ''Hadi'' 41 None @
          benchJoinEvents ''G'' ''Rami'' 42 None @
          [AdminLogin RemoteOk]) initialState)) = 2
   \<and> totalAll (teamSlots (snd (handleResetLineup True RemoteOk
      (runOps (claimEvents ''A'' Red GK ''Sami'' @
          claimEvents ''B'' Red LB ''Omar'' @
          claimEvents ''C'' Red ST ''Ali'' @
          claimEvents ''D'' Green GK ''Zaid'' @
          claimEvents ''E'' Green CAM ''Nour'' @
          benchJoinEvents ''F'' ''Hadi'' 41 None @
          benchJoinEvents ''G'' ''Rami'' 42 None @
          [AdminLogin RemoteOk]) initialState)))) = 0
   \<and> bench (snd (handleResetLineup True RemoteOk
      (runOps (claimEvents ''A'' Red GK ''Sami'' @
          claimEvents ''B'' Red LB ''Omar'' @
          claimEvents ''C'' Red ST ''Ali'' @
          claimEvents ''D'' Green GK ''Zaid'' @
          claimEvents ''E'' Green CAM ''Nour'' @
          benchJoinEvents ''F'' ''Hadi'' 41 None @
          benchJoinEvents ''G'' ''Rami'' 42 None @
          [AdminLogin RemoteOk]) initialState))) = []"
proof -
  let ?s = "runOps (claimEvents ''A'' Red GK ''Sami'' @
      claimEvents ''B'' Red LB ''Omar'' @
      claimEvents ''C'' Red ST ''Ali'' @
      claimEvents ''D'' Green GK ''Zaid'' @
      claimEvents ''E'' Green CAM ''Nour'' @
      benchJoinEvents ''F'' ''Hadi'' 41 None @
      benchJoinEvents ''G'' ''Rami'' 42 None @
      [AdminLogin RemoteOk]) initialState"
  have h: "isAdminLoggedIn ?s" by code_simp
  have a: "totalAll (teamSlots ?s) = 5" by code_simp
  have b: "length (bench ?s) = 2" by code_simp
  from reset_all_clears_lineup[OF h, of RemoteOk] a b show ?thesis by blast
qed

text \<open>
  C8. \<^verbatim>\<open>updateBookingDetails\<close> on a team and a key leaves the bench, the other team and every
  position with another key as they are; on a position with that key it keeps key, label,
  line, occupancy, occupant name and owner, and sets each of rating, tags, payment status
  and note to the value the update names, or keeps it when the update does not name it.
\<close>

theorem update_details_changes_named_fields_only:
  "bench (updateBookingDetails team k u s) = bench s
   \<and> (\<forall>t. t \<noteq> team \<longrightarrow>
         slotsOf (teamSlots (updateBookingDetails team k u s)) t = slotsOf (teamSlots s) t)
   \<and> length (slotsOf (teamSlots (updateBookingDetails team k u s)) team)
       = length (slotsOf (teamSlots s) team)
   \<and> (\<forall>i < length (slotsOf (teamSlots s) team).
         (key (slotsOf (teamSlots s) team ! i) \<noteq> k \<longrightarrow>
            slotsOf (teamSlots (updateBookingDetails team k u s)) team ! i
              = slotsOf (teamSlots s) team ! i)
       \<and> (key (slotsOf (teamSlots s) team ! i) = k \<longrightarrow>
            key (slotsOf (teamSlots (updateBookingDetails team k u s)) team ! i) = k
          \<and> label (slotsOf (teamSlots (updateBookingDetails team k u s)) team ! i)
              = label (slotsOf (teamSlots s) team ! i)
          \<and> line (slotsOf (teamSlots (updateBookingDetails team k u s)) team ! i)
              = line (slotsOf (teamSlots s) team ! i)
          \<and> booked (slotsOf (teamSlots (updateBookingDetails team k u s)) team ! i)
              = booked (slotsOf (teamSlots s) team ! i)
          \<and> playerName (slotsOf (teamSlots (updateBookingDetails team k u s)) team ! i)
              = playerName (slotsOf (teamSlots s) team ! i)
          \<and> sessionId (slotsOf (teamSlots (updateBookingDetails team k u s)) team ! i)
              = sessionId (slotsOf (teamSlots s) team ! i)
          \<and> rating (slotsOf (teamSlots (updateBookingDetails team k u s)) team ! i)
              = (case u_rating u of None \<Rightarrow> rating (slotsOf (teamSlots s) team ! i) | Some r \<Rightarrow> r)
          \<and> tags (slotsOf (teamSlots (updateBookingDetails team k u s)) team ! i)
              = (case u_tags u of None \<Rightarrow> tags (slotsOf (teamSlots s) team ! i) | Some x \<Rightarrow> x)
          \<and> paymentStatus (slotsOf (teamSlots (updateBookingDetails team k u s)) team ! i)
              = (case u_paymentStatus u of
                   None \<Rightarrow> paymentStatus (slotsOf (teamSlots s) team ! i) | Some p \<Rightarrow> p)
          \<and> note_txt (slotsOf (teamSlots (updateBookingDetails team k u s)) team ! i)
              = (case u_note u of None \<Rightarrow> note_txt (slotsOf (teamSlots s) team ! i) | Some n \<Rightarrow> n)))"
proof -
  let ?xs = "slotsOf (teamSlots s) team"
  have ts: "slotsOf (teamSlots (updateBookingDetails team k u s)) t
              = (if t = team then updKey k (applyUpdates u) ?xs else slotsOf (teamSlots s) t)" for t
    by (simp add: updateBookingDetails_def slotsOf_setSlots)
  have nth: "updKey k (applyUpdates u) ?xs ! i
               = (if key (?xs ! i) = k then applyUpdates u (?xs ! i) else ?xs ! i)"
    if "i < length ?xs" for i
    using that by (simp add: updKey_def)
  have len: "length (updKey k (applyUpdates u) ?xs) = length ?xs"
    by (simp add: updKey_def)
  have b: "bench (updateBookingDetails team k u s) = bench s"
    by (simp add: updateBookingDetails_def)
  show ?thesis
    unfolding ts b using nth len by (simp add: applyUpdates_def)
qed

theorem update_details_changes_named_fields_only_witness:
  "slotsOf (teamSlots (updateBookingDetails Red CB1
       \<lparr>u_rating = Some (Some 8), u_tags = None, u_paymentStatus = None, u_note = None\<rparr>
       (runOps (claimEvents ''X'' Red CB1 ''Sami'' @
           claimEvents ''Y'' Green GK ''Omar'') initialState))) Green
     = slotsOf (teamSlots
         (runOps (claimEvents ''X'' Red CB1 ''Sami'' @
             claimEvents ''Y'' Green GK ''Omar'') initialState)) Green
   \<and> slotsOf (teamSlots (updateBookingDetails Red CB1
       \<lparr>u_rating = Some (Some 8), u_tags = None, u_paymentStatus = None, u_note = None\<rparr>
       (runOps (claimEvents ''X'' Red CB1 ''Sami'' @
           claimEvents ''Y'' Green GK ''Omar'') initialState))) Red ! 0
     = slotsOf (teamSlots
         (runOps (claimEvents ''X'' Red CB1 ''Sami'' @
             claimEvents ''Y'' Green GK ''Omar'') initialState)) Red ! 0
   \<and> rating (slotsOf (teamSlots (updateBookingDetails Red CB1
       \<lparr>u_rating = Some (Some 8), u_tags = None, u_paymentStatus = None, u_note = None\<rparr>
       (runOps (claimEvents ''X'' Red CB1 ''Sami'' @
           claimEvents ''Y'' Green GK ''Omar'') initialState))) Red ! 2)
     = Some 8
   \<and> playerName (slotsOf (teamSlots (updateBookingDetails Red CB1
       \<lparr>u_rating = Some (Some 8), u_tags = None, u_paymentStatus = None, u_note = None\<rparr>
       (runOps (claimEvents ''X'' Red CB1 ''Sami'' @
           claimEvents ''Y'' Green GK ''Omar'') initialState))) Red ! 2)
     = Some ''Sami''
   \<and> paymentStatus (slotsOf (teamSlots (updateBookingDetails Red CB1
       \<lparr>u_rating = Some (Some 8), u_tags = None, u_paymentStatus = None, u_note = None\<rparr>
       (runOps (claimEvents ''X'' Red CB1 ''Sami'' @
           claimEvents ''Y'' Green GK ''Omar'') initialState))) Red ! 2)
     = Unpaid"
proof -
  let ?s = "runOps (claimEvents ''X'' Red CB1 ''Sami'' @
      claimEvents ''Y'' Green GK ''Omar'') initialState"
  let ?u = "\<lparr>u_rating = Some (Some 8), u_tags = None, u_paymentStatus = None, u_note = None\<rparr>"
  have g: "Green \<noteq> Red" by simp
  have l0: "0 < length (slotsOf (teamSlots ?s) Red)" by code_simp
  have k0: "key (slotsOf (teamSlots ?s) Red ! 0) \<noteq> CB1" by code_simp
  have l2: "2 < length (slotsOf (teamSlots ?s) Red)" by code_simp
  have k2: "key (slotsOf (teamSlots ?s) Red ! 2) = CB1" by code_simp
  have p2: "playerName (slotsOf (teamSlots ?s) Red ! 2) = Some ''Sami''" by code_simp
  have y2: "paymentStatus (slotsOf (teamSlots ?s) Red ! 2) = Unpaid" by code_simp
  note f = update_details_changes_named_fields_only[of Red CB1 ?u ?s]
  from f g have c1: "slotsOf (teamSlots (updateBookingDetails Red CB1 ?u ?s)) Green
                       = slotsOf (teamSlots ?s) Green" by blast
  from f l0 k0 have c2: "slotsOf (teamSlots (updateBookingDetails Red CB1 ?u ?s)) Red ! 0
                           = slotsOf (teamSlots ?s) Red ! 0" by blast
  from f l2 k2 have c3:
    "rating (slotsOf (teamSlots (updateBookingDetails Red CB1 ?u ?s)) Red ! 2)
       = (case u_rating ?u of None \<Rightarrow> rating (slotsOf (teamSlots ?s) Red ! 2) | Some r \<Rightarrow> r)"
    "playerName (slotsOf (teamSlots (updateBookingDetails Red CB1 ?u ?s)) Red ! 2)
       = playerName (slotsOf (teamSlots ?s) Red ! 2)"
    "paymentStatus (slotsOf (teamSlots (updateBookingDetails Red CB1 ?u ?s)) Red ! 2)
       = (case u_paymentStatus ?u of
            None \<Rightarrow> paymentStatus (slotsOf (teamSlots ?s) Red ! 2) | Some p \<Rightarrow> p)"
    by blast+
  have c3': "rating (slotsOf (teamSlots (updateBookingDetails Red CB1 ?u ?s)) Red ! 2) = Some 8"
    "playerName (slotsOf (teamSlots (updateBookingDetails Red CB1 ?u ?s)) Red ! 2) = Some ''Sami''"
    "paymentStatus (slotsOf (teamSlots (updateBookingDetails Red CB1 ?u ?s)) Red ! 2) = Unpaid"
    using c3 p2 y2 by simp_all
  from c1 c2 c3' show ?thesis by blast
qed

text \<open>
  C9. Cancelling does not ask that the position be booked. In every state that a run of
  events reaches from the initial one (the start-up load among the events), a position
  that is not booked records no owner, so a cancellation of it by any device, forced or
  not, is let through; with a non-empty bench it marks the position booked with the name
  and device identifier of the head and takes the head off the queue (by the id filter
  described under C2).
\<close>

theorem cancel_on_empty_position_promotes:
  assumes "slotAt (teamSlots (runOps ops initialState)) team k = Some slot"
    and "\<not> booked slot"
    and "bench (runOps ops initialState) = h # rest"
  shows "fst (handleCancelBooking sid team k force (runOps ops initialState)) = None
       \<and> map_option booked
            (slotAt (teamSlots (snd (handleCancelBooking sid team k force (runOps ops initialState))))
               team k) = Some True
       \<and> map_option playerName
            (slotAt (teamSlots (snd (handleCancelBooking sid team k force (runOps ops initialState))))
               team k) = Some (Some (playerName_b h))
       \<and> map_option sessionId
            (slotAt (teamSlots (snd (handleCancelBooking sid team k force (runOps ops initialState))))
               team k) = Some (case sessionId_b h of None \<Rightarrow> [] | Some x \<Rightarrow> x)
       \<and> bench (snd (handleCancelBooking sid team k force (runOps ops initialState)))
           = filter (\<lambda>b. id_b b \<noteq> id_b h) rest
       \<and> h \<notin> set (bench (snd (handleCancelBooking sid team k force (runOps ops initialState))))
       \<and> (id_b h \<notin> id_b ` set rest \<longrightarrow>
            bench (snd (handleCancelBooking sid team k force (runOps ops initialState))) = rest)"
proof -
  have "sessionId slot = []"
    using lineupInv_reachable assms(1,2) by (rule empty_slot_unowned)
  then have ok: "\<not> cancelRefused force sid (sessionId slot)"
    by (simp add: cancelRefused_def)
  have "filter (\<lambda>b. id_b b \<noteq> id_b h) rest = rest" if "id_b h \<notin> id_b ` set rest"
    using that by (induction rest) auto
  then show ?thesis
    using cancel_result[OF assms(1) ok] assms(3) by (auto simp: promoteInto_def)
qed

theorem cancel_on_empty_position_promotes_witness:
  "fst (handleCancelBooking ''Z'' Green ST False
          (runOps (benchJoinEvents ''Y'' ''Alice'' 41 None) initialState)) = None
   \<and> map_option booked (slotAt (teamSlots (snd (handleCancelBooking ''Z'' Green ST False
          (runOps (benchJoinEvents ''Y'' ''Alice'' 41 None) initialState)))) Green ST) = Some True
   \<and> map_option playerName (slotAt (teamSlots (snd (handleCancelBooking ''Z'' Green ST False
          (runOps (benchJoinEvents ''Y'' ''Alice'' 41 None) initialState)))) Green ST) = Some (Some ''Alice'')
   \<and> map_option sessionId (slotAt (teamSlots (snd (handleCancelBooking ''Z'' Green ST False
          (runOps (benchJoinEvents ''Y'' ''Alice'' 41 None) initialState)))) Green ST) = Some ''Y''
   \<and> bench (snd (handleCancelBooking ''Z'' Green ST False
          (runOps (benchJoinEvents ''Y'' ''Alice'' 41 None) initialState))) = []"
proof -
  let ?slot = "\<lparr>key = ST, label = ''striker'', line = ATT,
            booked = False, playerName = None, rating = None, tags = [],
            note_txt = [], paymentStatus = Unpaid, sessionId = []\<rparr>"
  let ?h = "\<lparr>id_b = 41, playerName_b = ''Alice'', sessionId_b = Some ''Y''\<rparr>"
  have h1: "slotAt (teamSlots (runOps (benchJoinEvents ''Y'' ''Alice'' 41 None) initialState)) Green ST
              = Some ?slot"
    by code_simp
  have h2: "\<not> booked ?slot"
    by simp
  have h3: "bench (runOps (benchJoinEvents ''Y'' ''Alice'' 41 None) initialState) = ?h # []"
    by code_simp
  have h4: "id_b ?h \<notin> id_b ` set []"
    by simp
  from cancel_on_empty_position_promotes[OF h1 h2 h3, of "''Z''" False] h4 show ?thesis
    by simp
qed

text \<open>
  C10. When a bench entry is promoted into a cancelled position, the position takes the
  entry's name and device identifier and nothing else: rating, tags, note and payment
  status are the defaults, whatever the previous occupant had.
\<close>

theorem promotion_resets_metadata:
  assumes "slotAt (teamSlots s) team k = Some slot"
    and "\<not> cancelRefused force sid (sessionId slot)"
    and "bench s = h # rest"
  shows "slotAt (teamSlots (snd (handleCancelBooking sid team k force s))) team k =
           Some \<lparr>key = k, label = label slot, line = line slot,
                  booked = True, playerName = Some (playerName_b h), rating = None, tags = [],
                  note_txt = [], paymentStatus = Unpaid,
                  sessionId = (case sessionId_b h of None \<Rightarrow> [] | Some x \<Rightarrow> x)\<rparr>"
  using cancel_result(2)[OF assms(1,2)] assms(3) slotAt_key[OF assms(1)]
  by (simp add: clearSlot_def promoteInto_def)

theorem promotion_resets_metadata_witness:
  "slotAt (teamSlots (snd (handleCancelBooking ''X'' Red CB1 False
       (runOps (claimEvents ''X'' Red CB1 ''Sami'' @
           [UpdateDetails Red CB1
               \<lparr>u_rating = Some (Some 9), u_tags = Some [''fast''],
                 u_paymentStatus = Some Paid, u_note = Some ''left foot''\<rparr>] @
           benchJoinEvents ''Y'' ''Alice'' 41 None) initialState)))) Red CB1 =
     Some \<lparr>key = CB1, label = ''centre back 1'', line = DEF,
            booked = True, playerName = Some ''Alice'', rating = None, tags = [],
            note_txt = [], paymentStatus = Unpaid, sessionId = ''Y''\<rparr>"
proof -
  let ?s = "runOps (claimEvents ''X'' Red CB1 ''Sami'' @
      [UpdateDetails Red CB1
          \<lparr>u_rating = Some (Some 9), u_tags = Some [''fast''],
            u_paymentStatus = Some Paid, u_note = Some ''left foot''\<rparr>] @
      benchJoinEvents ''Y'' ''Alice'' 41 None) initialState"
  let ?slot = "\<lparr>key = CB1, label = ''centre back 1'', line = DEF,
            booked = True, playerName = Some ''Sami'', rating = Some 9, tags = [''fast''],
            note_txt = ''left foot'', paymentStatus = Paid, sessionId = ''X''\<rparr>"
  let ?h = "\<lparr>id_b = 41, playerName_b = ''Alice'', sessionId_b = Some ''Y''\<rparr>"
  have h1: "slotAt (teamSlots ?s) Red CB1 = Some ?slot" by code_simp
  have h2: "\<not> cancelRefused False ''X'' (sessionId ?slot)" by (simp add: cancelRefused_def)
  have h3: "bench ?s = ?h # []" by code_simp
  from promotion_resets_metadata[OF h1 h2 h3] show ?thesis by simp
qed

end
